theory Spec2Isabelle
  imports Main "HOL-Library.Log_Nat"
begin

section \<open>Python numbers\<close>

text \<open>
  The routing code computes with Python \<^verbatim>\<open>float\<close>s, which are IEEE 754 binary64 numbers.
  A finite double is modelled by the rational number it denotes, and every arithmetic
  operation rounds its exact result to the nearest double, ties to the even significand
  (\<open>fl\<close>). Doubles have 53 significant bits; the least exponent of a unit in the last
  place is \<open>-1074\<close> (the subnormal numbers). Infinities and NaN are outside the model:
  the quantities computed here are ratios in \<open>[0, 1]\<close>, list indices, distances on the
  Earth and coordinates in degrees, far from the overflow threshold.
\<close>

type_synonym float64 = rat

definition ilog2 :: "rat \<Rightarrow> int" where
  \<comment> \<open>\<open>\<lfloor>log\<^sub>2 x\<rfloor>\<close> for \<open>0 < x\<close>\<close>
  "ilog2 x = (if 1 \<le> x then bitlen \<lfloor>x\<rfloor> - 1 else - bitlen (\<lceil>1 / x\<rceil> - 1))"

definition round_half_even :: "rat \<Rightarrow> int" where
  "round_half_even y =
     (let f = \<lfloor>y\<rfloor>; r = y - of_int f
      in if r < 1 / 2 then f else if 1 / 2 < r then f + 1 else if even f then f else f + 1)"

definition pow2 :: "int \<Rightarrow> rat" where
  "pow2 e = (if 0 \<le> e then 2 ^ nat e else 1 / 2 ^ nat (- e))"

definition fl_pos :: "rat \<Rightarrow> float64" where
  "fl_pos x = (let e = max (ilog2 x - 52) (- 1074) in of_int (round_half_even (x / pow2 e)) * pow2 e)"

definition fl :: "rat \<Rightarrow> float64" where
  "fl x = (if x = 0 then 0 else if x < 0 then - fl_pos (- x) else fl_pos x)"

text \<open>
  The operators of Python on floats, the conversions between \<^verbatim>\<open>int\<close> and
  \<^verbatim>\<open>float\<close>, \<^verbatim>\<open>range\<close>, and a slice \<^verbatim>\<open>xs[start:stop]\<close> with the bounds
  counted from the end when negative and clipped to the list. \<^verbatim>\<open>sum\<close> adds from
  the left, starting from the int \<open>0\<close> (CPython from 3.12 on compensates the rounding
  errors of this sum; the statements about the rolling mean do not depend on which of the
  two it is).
\<close>

definition fadd :: "float64 \<Rightarrow> float64 \<Rightarrow> float64" where
  "fadd a b = fl (a + b)"

definition fsub :: "float64 \<Rightarrow> float64 \<Rightarrow> float64" where
  "fsub a b = fl (a - b)"

definition fmul :: "float64 \<Rightarrow> float64 \<Rightarrow> float64" where
  "fmul a b = fl (a * b)"

definition fdiv :: "float64 \<Rightarrow> float64 \<Rightarrow> float64" where
  "fdiv a b = fl (a / b)"

definition int_truediv :: "int \<Rightarrow> int \<Rightarrow> float64" where
  \<comment> \<open>\<^verbatim>\<open>a / b\<close> on two ints: the correctly rounded quotient\<close>
  "int_truediv a b = fl (of_int a / of_int b)"

definition float_of_int :: "int \<Rightarrow> float64" where
  \<comment> \<open>the conversion Python applies to an int operand of a float operation\<close>
  "float_of_int k = fl (of_int k)"

definition py_int :: "float64 \<Rightarrow> int" where
  \<comment> \<open>\<^verbatim>\<open>int(x)\<close> truncates towards zero\<close>
  "py_int x = (if 0 \<le> x then \<lfloor>x\<rfloor> else \<lceil>x\<rceil>)"

definition py_range :: "int \<Rightarrow> int list" where
  \<comment> \<open>\<^verbatim>\<open>range(n)\<close>, empty when \<open>n \<le> 0\<close>\<close>
  "py_range n = [0..n - 1]"

definition slice_bound :: "int \<Rightarrow> int \<Rightarrow> nat" where
  "slice_bound len i = nat (if i < 0 then max (i + len) 0 else min i len)"

definition py_slice :: "'a list \<Rightarrow> int \<Rightarrow> int \<Rightarrow> 'a list" where
  "py_slice xs start stop =
     (let lo = slice_bound (int (length xs)) start;
          hi = slice_bound (int (length xs)) stop
      in take (hi - lo) (drop lo xs))"

definition py_sum :: "float64 list \<Rightarrow> float64" where
  "py_sum xs = foldl fadd 0 xs"

text \<open>
  The exceptions that reach the claims. \<open>RuntimeError\<close> and \<open>ValueError\<close> carry their
  message, without the text of the exception they were raised from.
\<close>

datatype py_exception = ZeroDivisionError | ValueError string | RuntimeError string

section \<open>The resampler: \<^verbatim>\<open>sample_route_to_minutes\<close>\<close>

text \<open>
  The method is the same text in \<^verbatim>\<open>routing.py\<close> and \<^verbatim>\<open>routing_osrm_api.py\<close>.
  \<open>point_index\<close> is the body of its loop: the ratio (the int \<open>0\<close> when the duration
  is not positive), the index \<^verbatim>\<open>int(ratio * (len(route_points) - 1))\<close>, and the clamp
  to the last index. The points are copied, never computed with, so their type is left
  open. The index lies between \<open>0\<close> and \<open>len(route_points) - 1\<close>
  (lemma \<open>point_index_range\<close>), so the list access never raises and never counts
  from the end of the list.
\<close>

definition point_index :: "nat \<Rightarrow> int \<Rightarrow> int \<Rightarrow> int" where
  "point_index len total_duration_minutes minute =
     (let ratio = (if 0 < total_duration_minutes
                   then int_truediv minute total_duration_minutes else 0);
          point_idx = py_int (fmul ratio (float_of_int (int len - 1)))
      in min point_idx (int len - 1))"

fun sample_loop :: "'a list \<Rightarrow> int \<Rightarrow> int list \<Rightarrow> 'a list \<Rightarrow> 'a list" where
  "sample_loop route_points total_duration_minutes [] sampled_points = sampled_points"
| "sample_loop route_points total_duration_minutes (minute # minutes) sampled_points =
     sample_loop route_points total_duration_minutes minutes
       (sampled_points @
          [route_points ! nat (point_index (length route_points) total_duration_minutes minute)])"

definition sample_route_to_minutes :: "'a list \<Rightarrow> int \<Rightarrow> 'a list" where
  "sample_route_to_minutes route_points total_duration_minutes =
     (if length route_points \<le> 1 then route_points
      else sample_loop route_points total_duration_minutes
             (py_range (total_duration_minutes + 1)) [])"

text \<open>
  The reference definition of the specification (section 4.1), in its words. The
  specification states no rounding, so the ratio and the index are exact: an input of at
  most one point is returned unchanged; for \<open>total_minutes \<le> 0\<close> every output point is the
  first input point; otherwise minute \<open>m\<close> of \<open>[0, total_minutes]\<close> gives the ratio
  \<open>m / total_minutes\<close>, the index \<open>floor (ratio * (len(input) - 1))\<close> clamped to the last
  valid index, and the input point at that index. The output has \<open>total_minutes + 1\<close>
  points, none when that number is not positive.
\<close>

definition reference_index :: "nat \<Rightarrow> int \<Rightarrow> int \<Rightarrow> int" where
  "reference_index len total_minutes m =
     (let ratio = (of_int m / of_int total_minutes :: rat);
          index = \<lfloor>ratio * of_int (int len - 1)\<rfloor>
      in min index (int len - 1))"

definition reference_point :: "'a list \<Rightarrow> int \<Rightarrow> int \<Rightarrow> 'a" where
  "reference_point input total_minutes m =
     input ! nat (reference_index (length input) total_minutes m)"

definition resample_reference :: "'a list \<Rightarrow> int \<Rightarrow> 'a list" where
  "resample_reference input total_minutes =
     (if length input \<le> 1 then input
      else if total_minutes \<le> 0 then replicate (nat (total_minutes + 1)) (input ! 0)
      else map (reference_point input total_minutes) [0..total_minutes])"

section \<open>The distance primitive: \<^verbatim>\<open>haversine_distance\<close>\<close>

text \<open>
  The haversine formula calls \<^verbatim>\<open>math.radians\<close>, \<^verbatim>\<open>sin\<close>, \<^verbatim>\<open>cos\<close>,
  \<^verbatim>\<open>asin\<close>, \<^verbatim>\<open>sqrt\<close> and the power operator. Their results are doubles, but which
  doubles is the affair of the C library, so the model takes these functions as a
  parameter, a record \<open>libm\<close>; the theorems hold for every such record. The four
  arithmetic operators round as above. \<^verbatim>\<open>math.asin\<close> and \<^verbatim>\<open>math.sqrt\<close> raise
  outside their domains, which rounding can reach for two points that are nearly
  antipodal; the model covers the calls that return.
\<close>

record libm =
  m_radians :: "float64 \<Rightarrow> float64"
  m_sin :: "float64 \<Rightarrow> float64"
  m_cos :: "float64 \<Rightarrow> float64"
  m_asin :: "float64 \<Rightarrow> float64"
  m_sqrt :: "float64 \<Rightarrow> float64"
  m_pow :: "float64 \<Rightarrow> float64 \<Rightarrow> float64"

type_synonym coordinate = "float64 \<times> float64"

definition haversine_distance ::
  "libm \<Rightarrow> float64 \<Rightarrow> float64 \<Rightarrow> float64 \<Rightarrow> float64 \<Rightarrow> float64" where
  "haversine_distance lm lat1 lon1 lat2 lon2 =
     (let R = 6371;
          lat1 = m_radians lm lat1; lon1 = m_radians lm lon1;
          lat2 = m_radians lm lat2; lon2 = m_radians lm lon2;
          dlat = fsub lat2 lat1; dlon = fsub lon2 lon1;
          a = fadd (m_pow lm (m_sin lm (fdiv dlat 2)) 2)
                   (fmul (fmul (m_cos lm lat1) (m_cos lm lat2))
                         (m_pow lm (m_sin lm (fdiv dlon 2)) 2))
      in fmul (float_of_int (2 * R)) (m_asin lm (m_sqrt lm a)))"

section \<open>The fallback interpolator: \<^verbatim>\<open>interpolate_route\<close>\<close>

fun interpolate_loop ::
  "float64 \<Rightarrow> float64 \<Rightarrow> float64 \<Rightarrow> float64 \<Rightarrow> int \<Rightarrow> int list \<Rightarrow> coordinate list
     \<Rightarrow> coordinate list" where
  "interpolate_loop start_lat start_lon end_lat end_lon total_minutes [] route_points = route_points"
| "interpolate_loop start_lat start_lon end_lat end_lon total_minutes (minute # rest) route_points =
     (let ratio = (if 0 < total_minutes then int_truediv minute total_minutes else 0);
          lat = fadd start_lat (fmul (fsub end_lat start_lat) ratio);
          lon = fadd start_lon (fmul (fsub end_lon start_lon) ratio)
      in interpolate_loop start_lat start_lon end_lat end_lon total_minutes rest
           (route_points @ [(lat, lon)]))"

definition interpolate_route ::
  "float64 \<Rightarrow> float64 \<Rightarrow> float64 \<Rightarrow> float64 \<Rightarrow> int \<Rightarrow> coordinate list" where
  "interpolate_route start_lat start_lon end_lat end_lon total_minutes =
     interpolate_loop start_lat start_lon end_lat end_lon total_minutes
       (py_range (total_minutes + 1)) []"

section \<open>Speeds: \<^verbatim>\<open>calculate_per_minute_speeds\<close>, \<^verbatim>\<open>calculate_rolling_mean_speeds\<close>\<close>

text \<open>
  Both methods are in \<^verbatim>\<open>routing.py\<close> only. The first repeats the haversine formula
  inline for every pair of adjacent points; the second divides by the length of a slice,
  which raises \<open>ZeroDivisionError\<close> when the slice is empty. A trajectory is the
  dictionary that \<^verbatim>\<open>generate_trajectory\<close> returns; the class of
  \<^verbatim>\<open>routing_osrm_api.py\<close> adds the key \<^verbatim>\<open>osrm_used\<close>.
\<close>

fun speeds_loop :: "libm \<Rightarrow> coordinate list \<Rightarrow> int list \<Rightarrow> float64 list \<Rightarrow> float64 list" where
  "speeds_loop lm route_points [] speeds = speeds"
| "speeds_loop lm route_points (i # rest) speeds =
     (let (lat1, lon1) = route_points ! nat i;
          (lat2, lon2) = route_points ! nat (i + 1);
          R = 6371;
          lat1 = m_radians lm lat1; lon1 = m_radians lm lon1;
          lat2 = m_radians lm lat2; lon2 = m_radians lm lon2;
          dlat = fsub lat2 lat1; dlon = fsub lon2 lon1;
          a = fadd (m_pow lm (m_sin lm (fdiv dlat 2)) 2)
                   (fmul (fmul (m_cos lm lat1) (m_cos lm lat2))
                         (m_pow lm (m_sin lm (fdiv dlon 2)) 2));
          distance_km = fmul (float_of_int (2 * R)) (m_asin lm (m_sqrt lm a));
          speed_kmh = fmul distance_km 60
      in speeds_loop lm route_points rest (speeds @ [speed_kmh]))"

record trajectory =
  start_metro :: string
  end_metro :: string
  distance_km :: float64
  duration_minutes :: int
  avg_speed_kmh :: float64
  route_points :: "coordinate list"

record trajectory_osrm_api = trajectory +
  osrm_used :: bool

definition calculate_per_minute_speeds :: "libm \<Rightarrow> 'a trajectory_scheme \<Rightarrow> float64 list" where
  "calculate_per_minute_speeds lm trajectory =
     speeds_loop lm (route_points trajectory)
       (py_range (int (length (route_points trajectory)) - 1)) []"

fun rolling_loop ::
  "float64 list \<Rightarrow> int \<Rightarrow> int list \<Rightarrow> float64 list \<Rightarrow> py_exception + float64 list" where
  "rolling_loop speeds window [] rolling_means = Inr rolling_means"
| "rolling_loop speeds window (i # rest) rolling_means =
     (let start_idx = max 0 (i - window div 2);
          end_idx = min (int (length speeds)) (i + window div 2 + 1);
          window_speeds = py_slice speeds start_idx end_idx
      in if length window_speeds = 0 then Inl ZeroDivisionError
         else rolling_loop speeds window rest
                (rolling_means @
                   [fdiv (py_sum window_speeds) (float_of_int (int (length window_speeds)))]))"

definition calculate_rolling_mean_speeds ::
  "float64 list \<Rightarrow> int \<Rightarrow> py_exception + float64 list" where
  "calculate_rolling_mean_speeds speeds window =
     (if int (length speeds) < window then Inr speeds
      else rolling_loop speeds window (py_range (int (length speeds))) [])"

section \<open>Reverse geocoding: \<^verbatim>\<open>reverse_geocode_state\<close>\<close>

text \<open>
  The method is the same text in both files, the docstring apart. The answer of the
  geocoding service is the input of the model: either the request failed (connection,
  timeout, status, a body that is not JSON), or it returned a JSON value. An object is the
  list of its members in the order of the body; \<^verbatim>\<open>response.json()\<close> keeps the last of
  a repeated key, and so does \<open>dict_get\<close>. A Python \<^verbatim>\<open>str\<close> is written as the bytes of
  its UTF-8 form, so that ASCII text is itself. \<^verbatim>\<open>str.lower\<close> and \<^verbatim>\<open>str.upper\<close>
  follow the case mappings of Unicode, which are a parameter of the model, the record
  \<open>unicode\<close>; the theorems hold for every such record. \<open>dict_get\<close>, \<open>str_lower\<close> and
  \<open>str_upper\<close> are \<open>None\<close> where Python raises \<open>AttributeError\<close> (the value is no
  dictionary, no string); \<open>geocode_try\<close> is the body of the \<^verbatim>\<open>try\<close> block, \<open>None\<close>
  when it raises, and the \<^verbatim>\<open>except\<close> clause turns every exception into
  \<^verbatim>\<open>'UNKNOWN'\<close>.
\<close>

datatype json = JNull | JBool bool | JNum rat | JStr string | JArr "json list"
  | JObj "(string \<times> json) list"

datatype http_response = RequestFailed | Body json

record unicode =
  u_lower :: "string \<Rightarrow> string"
  u_upper :: "string \<Rightarrow> string"

fun truthy :: "json \<Rightarrow> bool" where
  "truthy JNull = False"
| "truthy (JBool b) = b"
| "truthy (JNum x) = (x \<noteq> 0)"
| "truthy (JStr s) = (s \<noteq> [])"
| "truthy (JArr xs) = (xs \<noteq> [])"
| "truthy (JObj kvs) = (kvs \<noteq> [])"

fun dict_get :: "json \<Rightarrow> string \<Rightarrow> json \<Rightarrow> json option" where
  "dict_get (JObj kvs) key dflt =
     Some (case map_of (rev kvs) key of Some v \<Rightarrow> v | None \<Rightarrow> dflt)"
| "dict_get _ key dflt = None"

fun str_lower :: "unicode \<Rightarrow> json \<Rightarrow> string option" where
  "str_lower u (JStr s) = Some (u_lower u s)"
| "str_lower u _ = None"

fun str_upper :: "unicode \<Rightarrow> json \<Rightarrow> string option" where
  "str_upper u (JStr s) = Some (u_upper u s)"
| "str_upper u _ = None"

definition state_mapping :: "(string \<times> string) list" where
  "state_mapping =
     [(''california'', ''CA''), (''texas'', ''TX''), (''florida'', ''FL''),
      (''new york'', ''NY''), (''pennsylvania'', ''PA''), (''illinois'', ''IL''),
      (''georgia'', ''GA''), (''massachusetts'', ''MA''), (''washington'', ''DC'')]"

definition geocode_try :: "unicode \<Rightarrow> json \<Rightarrow> string option" where
  "geocode_try u data =
     (case dict_get data ''address'' (JObj []) of None \<Rightarrow> None
      | Some address \<Rightarrow>
     (case dict_get address ''state'' JNull of None \<Rightarrow> None
      | Some st \<Rightarrow>
     (case (if truthy st then Some st
            else (case dict_get address ''country_code'' (JStr '''') of None \<Rightarrow> None
                  | Some cc \<Rightarrow> map_option JStr (str_upper u cc))) of None \<Rightarrow> None
      | Some state \<Rightarrow>
     (case str_lower u state of None \<Rightarrow> None
      | Some lowered \<Rightarrow>
     (case map_of state_mapping lowered of Some code \<Rightarrow> Some code
      | None \<Rightarrow>
     (case state of JStr s \<Rightarrow> Some (if s \<noteq> [] then s else ''UNKNOWN'')
      | _ \<Rightarrow> None))))))"

definition reverse_geocode_state :: "unicode \<Rightarrow> http_response \<Rightarrow> string" where
  "reverse_geocode_state u response =
     (case response of RequestFailed \<Rightarrow> ''UNKNOWN''
      | Body data \<Rightarrow> (case geocode_try u data of None \<Rightarrow> ''UNKNOWN'' | Some s \<Rightarrow> s))"

section \<open>Fetching a route and generating a trajectory\<close>

text \<open>
  The answer of the router is an input of the model as well: \<open>Returned\<close> is the route
  read from a successful answer (for OSRM the coordinates as \<open>(lon, lat)\<close> pairs, the
  distance in metres, the duration in seconds), \<open>RequestException\<close> and
  \<open>OtherException\<close> are the two \<^verbatim>\<open>except\<close> clauses: the request failed, or anything
  else went wrong in the \<^verbatim>\<open>try\<close> block (no route found, a missing field). In
  \<^verbatim>\<open>routing_osrm_api.py\<close> both clauses return the fallback route; in
  \<^verbatim>\<open>routing.py\<close> both raise \<open>RuntimeError\<close>.
\<close>

record route_data =
  rd_route_points :: "coordinate list"
  rd_distance_meters :: float64
  rd_duration_seconds :: float64
  rd_distance_km :: float64
  rd_duration_hours :: float64

definition fallback_linear_route ::
  "libm \<Rightarrow> float64 \<Rightarrow> float64 \<Rightarrow> float64 \<Rightarrow> float64 \<Rightarrow> route_data" where
  "fallback_linear_route lm start_lat start_lon end_lat end_lon =
     (let distance_km = haversine_distance lm start_lat start_lon end_lat end_lon;
          duration_hours = fdiv distance_km 80;
          duration_minutes = py_int (fmul duration_hours 60);
          route_points = interpolate_route start_lat start_lon end_lat end_lon duration_minutes
      in \<lparr>rd_route_points = route_points,
          rd_distance_meters = fmul distance_km 1000,
          rd_duration_seconds = fmul duration_hours 3600,
          rd_distance_km = distance_km,
          rd_duration_hours = duration_hours\<rparr>)"

datatype 'a attempt = Returned 'a | RequestException | OtherException

record osrm_route =
  coordinates :: "(float64 \<times> float64) list"
  distance :: float64
  duration :: float64

record valhalla_leg =
  shape :: "coordinate list"
  summary_length :: float64
  summary_time :: float64

definition osrm_route_data :: "osrm_route \<Rightarrow> route_data" where
  "osrm_route_data route =
     \<lparr>rd_route_points = map (\<lambda>coord. (snd coord, fst coord)) (coordinates route),
      rd_distance_meters = distance route,
      rd_duration_seconds = duration route,
      rd_distance_km = fdiv (distance route) 1000,
      rd_duration_hours = fdiv (duration route) 3600\<rparr>"

definition get_osrm_route_osrm_api ::
  "libm \<Rightarrow> osrm_route attempt \<Rightarrow> float64 \<Rightarrow> float64 \<Rightarrow> float64 \<Rightarrow> float64 \<Rightarrow> route_data" where
  "get_osrm_route_osrm_api lm reply start_lat start_lon end_lat end_lon =
     (case reply of
        Returned route \<Rightarrow> osrm_route_data route
      | RequestException \<Rightarrow> fallback_linear_route lm start_lat start_lon end_lat end_lon
      | OtherException \<Rightarrow> fallback_linear_route lm start_lat start_lon end_lat end_lon)"

definition get_osrm_route :: "osrm_route attempt \<Rightarrow> py_exception + route_data" where
  "get_osrm_route reply =
     (case reply of
        Returned route \<Rightarrow> Inr (osrm_route_data route)
      | RequestException \<Rightarrow> Inl (RuntimeError ''OSRM API failed'')
      | OtherException \<Rightarrow> Inl (RuntimeError ''OSRM routing failed''))"

definition get_valhalla_route ::
  "string option \<Rightarrow> valhalla_leg attempt \<Rightarrow> py_exception + route_data" where
  "get_valhalla_route url reply =
     (case url of
        None \<Rightarrow> Inl (RuntimeError ''Valhalla routing failed'')
      | Some _ \<Rightarrow>
        (case reply of
           Returned leg \<Rightarrow>
             Inr \<lparr>rd_route_points = shape leg,
                  rd_distance_meters = fmul (summary_length leg) 1000,
                  rd_duration_seconds = summary_time leg,
                  rd_distance_km = summary_length leg,
                  rd_duration_hours = fdiv (summary_time leg) 3600\<rparr>
         | RequestException \<Rightarrow> Inl (RuntimeError ''Valhalla API failed'')
         | OtherException \<Rightarrow> Inl (RuntimeError ''Valhalla routing failed'')))"

text \<open>
  \<open>find_metros\<close> is the scan of the region registry, with its exclusive
  \<^verbatim>\<open>elif\<close>. \<open>truck_routing\<close> holds the attributes of the class of
  \<^verbatim>\<open>routing.py\<close> that the method reads; \<open>world\<close> holds the answers of the routers
  and the draw of \<^verbatim>\<open>random.uniform(70, 95)\<close>. A tuple of two coordinates is never
  false in Python, so the test \<^verbatim>\<open>not start_coords\<close> asks whether the name was found.
\<close>

record metro =
  name :: string
  lat :: float64
  lon :: float64

fun find_metros ::
  "metro list \<Rightarrow> string \<Rightarrow> string \<Rightarrow> coordinate option \<Rightarrow> coordinate option
     \<Rightarrow> coordinate option \<times> coordinate option" where
  "find_metros [] start_name end_name start_coords end_coords = (start_coords, end_coords)"
| "find_metros (metro # rest) start_name end_name start_coords end_coords =
     (if name metro = start_name
      then find_metros rest start_name end_name (Some (lat metro, lon metro)) end_coords
      else if name metro = end_name
      then find_metros rest start_name end_name start_coords (Some (lat metro, lon metro))
      else find_metros rest start_name end_name start_coords end_coords)"

record truck_routing =
  metros :: "metro list"
  router_type :: string
  valhalla_url :: "string option"

record world =
  osrm_reply :: "osrm_route attempt"
  valhalla_reply :: "valhalla_leg attempt"
  random_uniform :: float64

definition not_found :: "string \<Rightarrow> string \<Rightarrow> py_exception" where
  "not_found start_name end_name =
     ValueError (''Metro region not found: '' @ start_name @ '' or '' @ end_name)"

definition generate_trajectory ::
  "truck_routing \<Rightarrow> world \<Rightarrow> string \<Rightarrow> string \<Rightarrow> float64 option \<Rightarrow> py_exception + trajectory" where
  "generate_trajectory self w start_metro' end_metro' avg_speed =
     (let avg_speed = (case avg_speed of None \<Rightarrow> random_uniform w | Some v \<Rightarrow> v)
      in case find_metros (metros self) start_metro' end_metro' None None of
           (Some (start_lat, start_lon), Some (end_lat, end_lon)) \<Rightarrow>
             (case (if router_type self = ''valhalla''
                    then get_valhalla_route (valhalla_url self) (valhalla_reply w)
                    else get_osrm_route (osrm_reply w)) of
                Inl e \<Rightarrow> Inl e
              | Inr rd \<Rightarrow>
                  (let total_minutes = py_int (fmul (rd_duration_hours rd) 60);
                       sampled_route = sample_route_to_minutes (rd_route_points rd) total_minutes
                   in Inr \<lparr>start_metro = start_metro', end_metro = end_metro',
                           distance_km = rd_distance_km rd,
                           duration_minutes = total_minutes,
                           avg_speed_kmh = avg_speed,
                           route_points = sampled_route\<rparr>))
         | _ \<Rightarrow> Inl (not_found start_metro' end_metro'))"

definition generate_trajectory_osrm_api ::
  "libm \<Rightarrow> metro list \<Rightarrow> world \<Rightarrow> string \<Rightarrow> string \<Rightarrow> float64 option
     \<Rightarrow> py_exception + trajectory_osrm_api" where
  "generate_trajectory_osrm_api lm registry w start_metro' end_metro' avg_speed =
     (let avg_speed = (case avg_speed of None \<Rightarrow> random_uniform w | Some v \<Rightarrow> v)
      in case find_metros registry start_metro' end_metro' None None of
           (Some (start_lat, start_lon), Some (end_lat, end_lon)) \<Rightarrow>
             (let rd = get_osrm_route_osrm_api lm (osrm_reply w) start_lat start_lon end_lat end_lon;
                  total_minutes = py_int (fmul (rd_duration_hours rd) 60);
                  sampled_route = sample_route_to_minutes (rd_route_points rd) total_minutes
              in Inr \<lparr>start_metro = start_metro', end_metro = end_metro',
                      distance_km = rd_distance_km rd,
                      duration_minutes = total_minutes,
                      avg_speed_kmh = avg_speed,
                      route_points = sampled_route,
                      osrm_used = True\<rparr>)
         | _ \<Rightarrow> Inl (not_found start_metro' end_metro'))"

section \<open>Notions used in the statements\<close>

text \<open>
  The speed between two points as the distance primitive gives it; the mean of the
  speeds over a centred window; the point of the interpolated polyline at one minute; the
  duration in minutes that the fallback path derives from the distance.
\<close>

definition speed_between :: "libm \<Rightarrow> coordinate \<Rightarrow> coordinate \<Rightarrow> float64" where
  "speed_between lm p q = fmul (haversine_distance lm (fst p) (snd p) (fst q) (snd q)) 60"

definition window_mean :: "float64 list \<Rightarrow> int \<Rightarrow> nat \<Rightarrow> float64" where
  "window_mean speeds window i =
     (let lo = nat (max 0 (int i - window div 2));
          hi = nat (min (int (length speeds)) (int i + window div 2 + 1))
      in fdiv (py_sum (map ((!) speeds) [lo..<hi])) (float_of_int (int hi - int lo)))"

definition interpolated_point ::
  "float64 \<Rightarrow> float64 \<Rightarrow> float64 \<Rightarrow> float64 \<Rightarrow> int \<Rightarrow> int \<Rightarrow> coordinate" where
  "interpolated_point start_lat start_lon end_lat end_lon total_minutes minute =
     (let ratio = (if 0 < total_minutes then int_truediv minute total_minutes else 0)
      in (fadd start_lat (fmul (fsub end_lat start_lat) ratio),
          fadd start_lon (fmul (fsub end_lon start_lon) ratio)))"

definition fallback_minutes :: "libm \<Rightarrow> float64 \<Rightarrow> float64 \<Rightarrow> float64 \<Rightarrow> float64 \<Rightarrow> int" where
  "fallback_minutes lm start_lat start_lon end_lat end_lon =
     py_int (fmul (fdiv (haversine_distance lm start_lat start_lon end_lat end_lon) 80) 60)"

text \<open>
  The closed instances below need a record of library functions. \<open>libm_answering h\<close>
  answers \<open>h\<close> for every arc sine, so that the distance is \<open>2 * 6371 * h\<close>: \<open>h\<close> stands
  for half the angle between the two points. Each instance uses the half-angle of the
  endpoints it names, so that the distance, and with it the duration in minutes, is the
  one Python computes for these endpoints. \<open>two_metros\<close> is a registry of two regions,
  \<open>router_down\<close> a world in which every request to a router fails. \<open>straight_track\<close>
  is a polyline of 23 points along a meridian.
\<close>

definition libm_answering :: "float64 \<Rightarrow> libm" where
  "libm_answering half_angle =
     \<lparr>m_radians = (\<lambda>x. 0), m_sin = (\<lambda>x. 0), m_cos = (\<lambda>x. 1),
      m_asin = (\<lambda>x. half_angle), m_sqrt = (\<lambda>x. 0), m_pow = (\<lambda>x y. 0)\<rparr>"

definition two_metros :: "float64 \<Rightarrow> float64 \<Rightarrow> float64 \<Rightarrow> float64 \<Rightarrow> metro list" where
  "two_metros a b c d = [\<lparr>name = ''A'', lat = a, lon = b\<rparr>, \<lparr>name = ''B'', lat = c, lon = d\<rparr>]"

definition router_down :: world where
  "router_down = \<lparr>osrm_reply = RequestException, valhalla_reply = RequestException,
                   random_uniform = 80\<rparr>"

definition straight_track :: "coordinate list" where
  "straight_track =
     [(0, 0), (1, 0), (2, 0), (3, 0), (4, 0), (5, 0), (6, 0), (7, 0), (8, 0), (9, 0), (10, 0),
      (11, 0), (12, 0), (13, 0), (14, 0), (15, 0), (16, 0), (17, 0), (18, 0), (19, 0), (20, 0),
      (21, 0), (22, 0)]"

text \<open>
  The instances of reverse geocoding use ASCII text only, on which \<^verbatim>\<open>str.lower\<close> and
  \<^verbatim>\<open>str.upper\<close> change the 26 letters and nothing else.
\<close>

definition lower_char :: "char \<Rightarrow> char" where
  "lower_char c = (let n = (of_char c :: nat) in if 65 \<le> n \<and> n \<le> 90 then char_of (n + 32) else c)"

definition upper_char :: "char \<Rightarrow> char" where
  "upper_char c = (let n = (of_char c :: nat) in if 97 \<le> n \<and> n \<le> 122 then char_of (n - 32) else c)"

definition ascii_case :: unicode where
  "ascii_case = \<lparr>u_lower = map lower_char, u_upper = map upper_char\<rparr>"

section \<open>Facts about rounding\<close>

lemma round_half_even_of_int: "round_half_even (of_int j) = j"
  by (simp add: round_half_even_def)

lemma pow2_pos: "0 < pow2 e"
  by (simp add: pow2_def)

lemma round_half_even_nonneg: "0 \<le> y \<Longrightarrow> 0 \<le> round_half_even y"
  by (auto simp: round_half_even_def Let_def)

lemma fl_pos_nonneg: "0 \<le> x \<Longrightarrow> 0 \<le> fl_pos x"
  unfolding fl_pos_def Let_def
  by (intro mult_nonneg_nonneg) (simp_all add: round_half_even_nonneg pow2_pos less_imp_le)

lemma fl_nonneg: "0 \<le> x \<Longrightarrow> 0 \<le> fl x"
  by (simp add: fl_def fl_pos_nonneg)

lemma fl_zero: "fl 0 = 0"
  by (simp add: fl_def)

lemma ilog2_of_int: "0 < k \<Longrightarrow> ilog2 (of_int k) = bitlen k - 1"
  by (simp add: ilog2_def)

text \<open>
Every integer of at most 53 bits is a double, and so is \<open>2\<^sup>5\<^sup>3\<close>.
\<close>

lemma fl_of_int_small:
  assumes "0 \<le> k" and "k < 2 ^ 53"
  shows "fl (of_int k) = of_int k"
proof (cases "k = 0")
  case True
  then show ?thesis by (simp add: fl_def)
next
  case False
  with assms have kpos: "0 < k" by simp
  have b1: "1 \<le> bitlen k"
    using kpos bitlen_eq_zero_iff[of k] bitlen_nonneg[of k] by linarith
  have b53: "bitlen k \<le> 53"
    using assms(2) by (simp add: bitlen_le_iff_power)
  define n where "n = nat (53 - bitlen k)"
  have e: "max (ilog2 (of_int k) - 52) (- 1074) = - int n"
    using b1 b53 kpos by (simp add: ilog2_of_int n_def)
  have p: "pow2 (- int n) = 1 / 2 ^ n"
    by (simp add: pow2_def)
  have q: "(of_int k :: rat) / (1 / 2 ^ n) = of_int (k * 2 ^ n)"
    by simp
  have "fl_pos (of_int k) = of_int k"
    unfolding fl_pos_def Let_def e p q round_half_even_of_int by simp
  with kpos show ?thesis by (simp add: fl_def)
qed

lemma fl_two_53: "fl (2 ^ 53) = 2 ^ 53"
  by code_simp

lemma fl_of_int:
  assumes "0 \<le> k" and "k \<le> 2 ^ 53"
  shows "fl (of_int k) = of_int k"
proof (cases "k = 2 ^ 53")
  case True
  then show ?thesis using fl_two_53 by simp
next
  case False
  with assms show ?thesis by (intro fl_of_int_small) simp_all
qed

lemma fl_one: "fl 1 = 1"
  using fl_of_int[of 1] by simp

lemma py_int_nonneg: "0 \<le> x \<Longrightarrow> 0 \<le> py_int x"
  by (simp add: py_int_def)

section \<open>The resampler as a map over the minutes\<close>

lemma sample_loop_map:
  "sample_loop ps t ms acc = acc @ map (\<lambda>m. ps ! nat (point_index (length ps) t m)) ms"
  by (induction ms arbitrary: acc) simp_all

lemma sample_route_to_minutes_map:
  "1 < length ps \<Longrightarrow>
   sample_route_to_minutes ps t = map (\<lambda>m. ps ! nat (point_index (length ps) t m)) [0..t]"
  by (simp add: sample_route_to_minutes_def sample_loop_map py_range_def)

lemma point_index_range:
  assumes "0 < len" and "0 \<le> minute"
  shows "0 \<le> point_index len t minute" and "point_index len t minute < int len"
proof -
  have r: "0 \<le> (if 0 < t then int_truediv minute t else 0)"
    using assms(2) by (simp add: int_truediv_def fl_nonneg)
  have f: "0 \<le> float_of_int (int len - 1)"
    using assms(1) by (simp add: float_of_int_def fl_nonneg)
  have "0 \<le> py_int (fmul (if 0 < t then int_truediv minute t else 0) (float_of_int (int len - 1)))"
    using r f by (intro py_int_nonneg) (simp add: fmul_def fl_nonneg)
  then show "0 \<le> point_index len t minute"
    using assms(1) by (simp add: point_index_def Let_def)
  show "point_index len t minute < int len"
    by (simp add: point_index_def Let_def)
qed

lemma point_index_first: "0 < len \<Longrightarrow> point_index len t 0 = 0"
  by (simp add: point_index_def Let_def int_truediv_def fmul_def fl_zero py_int_def)

lemma point_index_last:
  assumes "0 < len" and "int len - 1 \<le> 2 ^ 53" and "0 < t"
  shows "point_index len t t = int len - 1"
proof -
  have a: "int_truediv t t = 1"
    using assms(3) by (simp add: int_truediv_def fl_one)
  have b: "float_of_int (int len - 1) = of_int (int len - 1)"
    unfolding float_of_int_def using assms by (intro fl_of_int) simp_all
  have c: "fmul 1 (of_int (int len - 1)) = of_int (int len - 1)"
    unfolding fmul_def using assms by (simp only: mult_1) (intro fl_of_int, simp_all)
  have d: "py_int (of_int (int len - 1)) = int len - 1"
    using assms(1) by (simp add: py_int_def)
  show ?thesis
    using assms(3) by (simp add: point_index_def Let_def a b c d del: of_int_diff)
qed

lemma sample_route_to_minutes_nonpositive:
  assumes "1 < length P" and "t \<le> 0"
  shows "sample_route_to_minutes P t = replicate (nat (t + 1)) (P ! 0)"
proof (cases "t = 0")
  case True
  have "point_index (length P) 0 0 = 0"
    using assms(1) by (intro point_index_first) linarith
  then show ?thesis
    using assms(1) True by (simp add: sample_route_to_minutes_map upto_rec1)
next
  case False
  with assms(2) have "t < 0" by simp
  then show ?thesis
    using assms(1) by (simp add: sample_route_to_minutes_map)
qed

lemma sample_route_to_minutes_subset: "set (sample_route_to_minutes P t) \<subseteq> set P"
proof (cases "length P \<le> 1")
  case True
  then show ?thesis by (simp add: sample_route_to_minutes_def)
next
  case False
  then have l: "1 < length P" and lpos: "0 < length P" by linarith+
  have "P ! nat (point_index (length P) t m) \<in> set P" if "m \<in> set [0..t]" for m
  proof -
    from that have "0 \<le> m" by simp
    then have "0 \<le> point_index (length P) t m" "point_index (length P) t m < int (length P)"
      using point_index_range[OF lpos] by simp_all
    then have "nat (point_index (length P) t m) < length P" by linarith
    then show ?thesis by (rule nth_mem)
  qed
  then show ?thesis
    unfolding sample_route_to_minutes_map[OF l] by auto
qed

lemma sample_route_to_minutes_nth:
  assumes "1 < length P" and "0 \<le> k" and "k \<le> t"
  shows "sample_route_to_minutes P t ! nat k = P ! nat (point_index (length P) t k)"
  using assms by (simp add: sample_route_to_minutes_map nth_upto)

lemma sample_route_to_minutes_length:
  "1 < length P \<Longrightarrow> length (sample_route_to_minutes P t) = nat (t + 1)"
  by (simp add: sample_route_to_minutes_map)


text \<open>
  Indices computed in doubles: \<^verbatim>\<open>15 / 22 * 22\<close> is \<^verbatim>\<open>14.999999999999998\<close>.
\<close>

lemma point_index_4_22: "point_index 4 22 14 = 1" "point_index 4 22 15 = 2"
  by code_simp+

lemma point_index_23_22_15: "point_index 23 22 15 = 14"
  by code_simp

text \<open>
  The reference definition: its index is exact, and it is idempotent, as the
  specification requires of the algorithm it describes. The code agrees with it on the
  two boundary cases.
\<close>

lemma resample_reference_nth:
  assumes "1 < length P" and "0 < t" and "0 \<le> k" and "k \<le> t"
  shows "resample_reference P t ! nat k = P ! nat (reference_index (length P) t k)"
  using assms by (simp add: resample_reference_def reference_point_def nth_upto)

lemma reference_index_same:
  assumes "0 < t" and "0 \<le> k" and "k \<le> t"
  shows "reference_index (nat t + 1) t k = k"
  using assms by (simp add: reference_index_def)

lemma resample_reference_idempotent:
  "resample_reference (resample_reference P m) m = resample_reference P m"
proof (cases "length P \<le> 1 \<or> m \<le> 0")
  case True
  then have "length (resample_reference P m) \<le> 1"
    by (auto simp: resample_reference_def)
  then show ?thesis
    by (simp add: resample_reference_def[of "resample_reference P m"])
next
  case False
  then have l: "1 < length P" and mpos: "0 < m" by simp_all
  let ?Q = "resample_reference P m"
  have lenQ: "length ?Q = nat m + 1"
    using l mpos by (simp add: resample_reference_def nat_add_distrib)
  then have lQ: "1 < length ?Q" using mpos by simp
  have "resample_reference ?Q m = map (reference_point ?Q m) [0..m]"
    using lQ mpos by (simp add: resample_reference_def)
  also have "\<dots> = map (\<lambda>k. ?Q ! nat k) [0..m]"
  proof (rule map_cong[OF refl])
    fix k assume "k \<in> set [0..m]"
    then have "0 \<le> k" and "k \<le> m" by simp_all
    then have "reference_index (length ?Q) m k = k"
      unfolding lenQ by (rule reference_index_same[OF mpos])
    then show "reference_point ?Q m k = ?Q ! nat k"
      by (simp only: reference_point_def)
  qed
  also have "\<dots> = ?Q"
    using mpos by (intro nth_equalityI) (simp_all add: lenQ nth_upto)
  finally show ?thesis .
qed

lemma sample_route_to_minutes_reference_boundary:
  assumes "length P \<le> 1 \<or> t \<le> 0"
  shows "sample_route_to_minutes P t = resample_reference P t"
proof (cases "length P \<le> 1")
  case True
  then show ?thesis by (simp add: sample_route_to_minutes_def resample_reference_def)
next
  case False
  with assms have l: "1 < length P" and t: "t \<le> 0" by simp_all
  show ?thesis
    using l t by (simp add: sample_route_to_minutes_nonpositive resample_reference_def)
qed

lemma reference_index_23_22_15: "reference_index 23 22 15 = 15"
  by (simp add: reference_index_def)

section \<open>The interpolator as a map over the minutes\<close>

lemma interpolate_loop_map:
  "interpolate_loop a b c d t ms acc = acc @ map (interpolated_point a b c d t) ms"
  by (induction ms arbitrary: acc) (simp_all add: interpolated_point_def Let_def)

lemma interpolate_route_map:
  "interpolate_route a b c d t = map (interpolated_point a b c d t) [0..t]"
  by (simp add: interpolate_route_def interpolate_loop_map py_range_def)

lemma length_interpolate_route: "length (interpolate_route a b c d t) = nat (t + 1)"
  by (simp add: interpolate_route_map)

lemma interpolate_route_nth:
  "0 \<le> k \<Longrightarrow> k \<le> t \<Longrightarrow> interpolate_route a b c d t ! nat k = interpolated_point a b c d t k"
  by (simp add: interpolate_route_map nth_upto)

lemma interpolated_point_first:
  "fl a = a \<Longrightarrow> fl b = b \<Longrightarrow> interpolated_point a b c d t 0 = (a, b)"
  by (simp add: interpolated_point_def int_truediv_def fmul_def fadd_def fl_zero)

lemma interpolated_point_last:
  "0 < t \<Longrightarrow> interpolated_point a b c d t t
     = (fadd a (fmul (fsub c a) 1), fadd b (fmul (fsub d b) 1))"
  by (simp add: interpolated_point_def int_truediv_def fl_one)

lemma hd_interpolate_route:
  assumes "0 \<le> t" and "fl a = a" and "fl b = b"
  shows "hd (interpolate_route a b c d t) = (a, b)"
proof -
  have "[0..t] = 0 # [1..t]"
    using assms(1) by (simp add: upto_rec1)
  then show ?thesis
    using assms(2,3) by (simp add: interpolate_route_map interpolated_point_first)
qed

lemma last_interpolate_route:
  assumes "0 < t"
  shows "last (interpolate_route a b c d t)
           = (fadd a (fmul (fsub c a) 1), fadd b (fmul (fsub d b) 1))"
proof -
  have "[0..t] = [0..t - 1] @ [t]"
    using assms by (simp add: upto_rec2)
  then show ?thesis
    using assms by (simp add: interpolate_route_map interpolated_point_last)
qed

lemma interpolate_route_zero:
  "interpolate_route a b c d 0 = [(fl a, fl b)]"
  by (simp add: interpolate_route_map interpolated_point_def fmul_def fadd_def fl_zero)

section \<open>The loops of the speed functions\<close>

lemma speeds_loop_map:
  "speeds_loop lm ps is acc
     = acc @ map (\<lambda>i. speed_between lm (ps ! nat i) (ps ! nat (i + 1))) is"
proof (induction "is" arbitrary: acc)
  case Nil
  then show ?case by simp
next
  case (Cons i rest)
  show ?case
    by (simp add: Cons.IH speed_between_def haversine_distance_def Let_def split: prod.splits)
qed

lemma upto_as_upt: "[0..int n - 1] = map int [0..<n]"
  by (induction n) (simp_all add: upto_rec2)

lemma adjacent_map:
  "map (\<lambda>i. f (ps ! nat i) (ps ! nat (i + 1))) [0..int (length ps) - 2]
     = map2 f ps (tl ps)"
proof (cases ps)
  case Nil
  then show ?thesis by simp
next
  case (Cons p qs)
  have "[0..int (length ps) - 2] = map int [0..<length qs]"
    using upto_as_upt[of "length qs"] Cons by simp
  then show ?thesis
    using Cons by (auto intro!: nth_equalityI simp: nat_add_distrib)
qed

lemma py_slice_nonneg:
  assumes "0 \<le> lo" and "lo \<le> hi" and "hi \<le> int (length xs)"
  shows "py_slice xs lo hi = map ((!) xs) [nat lo..<nat hi]"
proof -
  have a: "slice_bound (int (length xs)) lo = nat lo" "slice_bound (int (length xs)) hi = nat hi"
    using assms by (simp_all add: slice_bound_def)
  have "take (nat hi - nat lo) (drop (nat lo) xs) = map ((!) xs) [nat lo..<nat hi]"
    using assms by (intro nth_equalityI) auto
  then show ?thesis
    by (simp add: py_slice_def a)
qed

lemma rolling_loop_map:
  assumes "0 \<le> window" and "\<forall>i \<in> set is. 0 \<le> i \<and> i < int (length speeds)"
  shows "rolling_loop speeds window is acc
           = Inr (acc @ map (\<lambda>i. window_mean speeds window (nat i)) is)"
  using assms(2)
proof (induction "is" arbitrary: acc)
  case Nil
  then show ?case by simp
next
  case (Cons i rest)
  then have i: "0 \<le> i" "i < int (length speeds)" by simp_all
  define lo where "lo = max 0 (i - window div 2)"
  define hi where "hi = min (int (length speeds)) (i + window div 2 + 1)"
  have h: "0 \<le> window div 2"
    using assms(1) by simp
  have lohi: "0 \<le> lo" "lo \<le> i" "i < hi" "hi \<le> int (length speeds)"
    using i h by (simp_all add: lo_def hi_def)
  then have sl: "py_slice speeds lo hi = map ((!) speeds) [nat lo..<nat hi]"
    by (intro py_slice_nonneg) simp_all
  have len: "length (py_slice speeds lo hi) = nat hi - nat lo" "nat lo < nat hi"
    using lohi by (simp_all add: sl)
  have cnt: "int (nat hi - nat lo) = int (nat hi) - int (nat lo)"
    using len(2) by (intro of_nat_diff) linarith
  have wm: "window_mean speeds window (nat i)
              = fdiv (py_sum (py_slice speeds lo hi)) (float_of_int (int (length (py_slice speeds lo hi))))"
    using i(1) by (simp add: window_mean_def Let_def sl cnt flip: lo_def hi_def)
  have ne: "py_slice speeds lo hi \<noteq> []"
  proof
    assume "py_slice speeds lo hi = []"
    then have "length (py_slice speeds lo hi) = 0" by simp
    with len show False by linarith
  qed
  have "rolling_loop speeds window (i # rest) acc
          = rolling_loop speeds window rest (acc @ [window_mean speeds window (nat i)])"
    using ne by (simp add: Let_def wm flip: lo_def hi_def)
  then show ?case
    using Cons by simp
qed

text \<open>
  A negative window on speeds that are not empty: at the last index the slice starts at or
  past the end of the list, so the division by its length raises, if no earlier one did.
\<close>

lemma rolling_loop_raises:
  assumes "\<exists>i \<in> set is. py_slice speeds (max 0 (i - window div 2))
                            (min (int (length speeds)) (i + window div 2 + 1)) = []"
  shows "rolling_loop speeds window is acc = Inl ZeroDivisionError"
  using assms by (induction "is" arbitrary: acc) (auto simp: Let_def)

lemma py_slice_past_end: "int (length xs) \<le> start \<Longrightarrow> py_slice xs start stop = []"
  by (simp add: py_slice_def slice_bound_def Let_def)

lemma calculate_rolling_mean_speeds_negative:
  assumes "window < 0" and "speeds \<noteq> []"
  shows "calculate_rolling_mean_speeds speeds window = Inl ZeroDivisionError"
proof -
  let ?n = "int (length speeds)"
  have n: "0 < ?n"
    using assms(2) by simp
  have "window div 2 < 0"
    using assms(1) by simp
  then have "?n \<le> max 0 (?n - 1 - window div 2)"
    by simp
  then have "py_slice speeds (max 0 (?n - 1 - window div 2))
               (min ?n (?n - 1 + window div 2 + 1)) = []"
    by (rule py_slice_past_end)
  moreover have "?n - 1 \<in> set [0..?n - 1]"
    using n by simp
  ultimately have "rolling_loop speeds window [0..?n - 1] [] = Inl ZeroDivisionError"
    by (intro rolling_loop_raises) blast
  then show ?thesis
    using assms(1) n by (simp add: calculate_rolling_mean_speeds_def py_range_def)
qed

lemma window_mean_example:
  "map (window_mean [60, 80, 100, 80, 60] 3) [0, 1, 2, 3, 4]
     = [70, 80, 6098624495397547 / 70368744177664, 80, 70]"
  by code_simp

section \<open>Reverse geocoding\<close>

lemma state_mapping_codes: "map_of state_mapping k = Some code \<Longrightarrow> length code = 2"
  by (auto simp: state_mapping_def split: if_splits)

lemma geocode_try_nonempty: "geocode_try u data = Some s \<Longrightarrow> s \<noteq> []"
  by (auto simp: geocode_try_def split: option.splits json.splits if_splits
           dest: state_mapping_codes)

lemma reverse_geocode_state_nonempty: "reverse_geocode_state u r \<noteq> []"
  by (auto simp: reverse_geocode_state_def split: http_response.splits option.splits
           dest: geocode_try_nonempty)

lemma geocode_try_not_dict:
  "\<forall>kvs. data \<noteq> JObj kvs \<Longrightarrow> geocode_try u data = None"
  by (cases data) (simp_all add: geocode_try_def)

lemma geocode_try_address_not_dict:
  "dict_get data ''address'' (JObj []) = Some a \<Longrightarrow> \<forall>kvs. a \<noteq> JObj kvs \<Longrightarrow>
   geocode_try u data = None"
  by (cases a) (simp_all add: geocode_try_def)

lemma geocode_try_state_not_str:
  "dict_get data ''address'' (JObj []) = Some address \<Longrightarrow>
   dict_get address ''state'' JNull = Some st \<Longrightarrow> truthy st \<Longrightarrow> \<forall>s. st \<noteq> JStr s \<Longrightarrow>
   geocode_try u data = None"
  by (cases st) (simp_all add: geocode_try_def)

lemma geocode_try_country_not_str:
  "dict_get data ''address'' (JObj []) = Some address \<Longrightarrow>
   dict_get address ''state'' JNull = Some st \<Longrightarrow> \<not> truthy st \<Longrightarrow>
   dict_get address ''country_code'' (JStr []) = Some cc \<Longrightarrow> \<forall>c. cc \<noteq> JStr c \<Longrightarrow>
   geocode_try u data = None"
  by (cases cc) (simp_all add: geocode_try_def)

lemma geocode_try_state:
  "dict_get data ''address'' (JObj []) = Some address \<Longrightarrow>
   dict_get address ''state'' JNull = Some (JStr s) \<Longrightarrow> s \<noteq> [] \<Longrightarrow>
   geocode_try u data
     = Some (case map_of state_mapping (u_lower u s) of Some code \<Rightarrow> code | None \<Rightarrow> s)"
  by (simp add: geocode_try_def split: option.splits)

lemma geocode_try_country:
  "dict_get data ''address'' (JObj []) = Some address \<Longrightarrow>
   dict_get address ''state'' JNull = Some st \<Longrightarrow> \<not> truthy st \<Longrightarrow>
   dict_get address ''country_code'' (JStr []) = Some (JStr c) \<Longrightarrow>
   geocode_try u data
     = Some (case map_of state_mapping (u_lower u (u_upper u c)) of Some code \<Rightarrow> code
             | None \<Rightarrow> if u_upper u c \<noteq> [] then u_upper u c else ''UNKNOWN'')"
  by (simp add: geocode_try_def split: option.splits)

lemma lower_texas: "map_of state_mapping (u_lower ascii_case ''Texas'') = Some ''TX''"
  by code_simp

lemma upper_us: "u_upper ascii_case ''us'' = ''US''"
  by code_simp

lemma lower_us: "map_of state_mapping (u_lower ascii_case ''US'') = None"
  by code_simp

section \<open>The registry scan and the fallback path\<close>

lemma find_metros_same:
  "snd (find_metros ms m m sc ec) = ec"
  by (induction ms arbitrary: sc) simp_all

lemma generate_trajectory_same:
  "generate_trajectory self w m m v = Inl (not_found m m)"
  using find_metros_same[of "metros self" m None None]
  by (auto simp: generate_trajectory_def Let_def split: prod.splits option.splits)

lemma generate_trajectory_osrm_api_same:
  "generate_trajectory_osrm_api lm ms w m m v = Inl (not_found m m)"
  using find_metros_same[of ms m None None]
  by (auto simp: generate_trajectory_osrm_api_def Let_def split: prod.splits option.splits)




lemma fallback_linear_route_fields:
  "rd_route_points (fallback_linear_route lm a b c d)
     = interpolate_route a b c d (fallback_minutes lm a b c d)"
  "rd_duration_hours (fallback_linear_route lm a b c d) = fdiv (haversine_distance lm a b c d) 80"
  "rd_distance_km (fallback_linear_route lm a b c d) = haversine_distance lm a b c d"
  by (simp_all add: fallback_linear_route_def fallback_minutes_def Let_def)

lemma fallback_minutes_nonneg:
  "0 \<le> haversine_distance lm a b c d \<Longrightarrow> 0 \<le> fallback_minutes lm a b c d"
  by (simp add: fallback_minutes_def fdiv_def fmul_def fl_nonneg py_int_nonneg)

lemma get_osrm_route_osrm_api_failed:
  "\<forall>route. reply \<noteq> Returned route \<Longrightarrow>
   get_osrm_route_osrm_api lm reply a b c d = fallback_linear_route lm a b c d"
  by (cases reply) (simp_all add: get_osrm_route_osrm_api_def)

lemma generate_trajectory_osrm_api_fallback:
  assumes "find_metros registry s e None None = (Some (a, b), Some (c, d))"
    and "\<forall>route. osrm_reply w \<noteq> Returned route"
  shows "generate_trajectory_osrm_api lm registry w s e v =
           Inr \<lparr>start_metro = s, end_metro = e,
                distance_km = haversine_distance lm a b c d,
                duration_minutes = fallback_minutes lm a b c d,
                avg_speed_kmh = (case v of None \<Rightarrow> random_uniform w | Some x \<Rightarrow> x),
                route_points = sample_route_to_minutes
                  (interpolate_route a b c d (fallback_minutes lm a b c d))
                  (fallback_minutes lm a b c d),
                osrm_used = True\<rparr>"
  using assms
  by (simp add: generate_trajectory_osrm_api_def Let_def get_osrm_route_osrm_api_failed
      fallback_linear_route_fields fallback_minutes_def)

text \<open>
  Three pairs of endpoints: 30.4 km apart on the equator, 5.99 km and 665 m apart on the
  parallel of 40 degrees.
\<close>

lemma find_two_metros:
  "find_metros (two_metros a b c d) ''A'' ''B'' None None = (Some (a, b), Some (c, d))"
  by (simp add: two_metros_def)


lemma router_down_reply: "\<forall>route. osrm_reply router_down \<noteq> Returned route"
  by (simp add: router_down_def)

lemma minutes_30km: "fallback_minutes (libm_answering (1251 / 524288)) 0 0 0 (35 / 128) = 22"
  by code_simp

lemma minutes_6km: "fallback_minutes (libm_answering (493 / 1048576)) 40 (- 75) 40 (- 9591 / 128) = 4"
  by code_simp

lemma minutes_660m: "fallback_minutes (libm_answering (219 / 4194304)) 40 (- 75) 40 (- 9599 / 128) = 0"
  by code_simp

lemma interpolated_14_15:
  "interpolated_point 0 0 0 (35 / 128) 22 14 \<noteq> interpolated_point 0 0 0 (35 / 128) 22 15"
  by code_simp

lemma distance_6km_nonneg:
  "0 \<le> haversine_distance (libm_answering (493 / 1048576)) 40 (- 75) 40 (- 9591 / 128)"
  by code_simp

lemma doubles_40_75: "fl 40 = 40" "fl (- 75) = - 75"
  by code_simp+

lemma round_trip_6km:
  "fadd 40 (fmul (fsub 40 40) 1) = 40"
  "fadd (- 75) (fmul (fsub (- 9591 / 128) (- 75)) 1) = - 9591 / 128"
  by code_simp+

section \<open>Claims\<close>

text \<open>
  C1. For a polyline \<open>P\<close> with more than one point and \<open>total_minutes \<ge> 1\<close>,
  \<^verbatim>\<open>sample_route_to_minutes(P, total_minutes)\<close> has \<open>total_minutes + 1\<close> points, its
  first point is the first point of \<open>P\<close> and its last point is the last point of \<open>P\<close>.
  The last index is computed as \<^verbatim>\<open>int(1.0 * (len(P) - 1))\<close> in doubles, which is exact
  for the lengths of lists a machine can hold: \<open>len(P) \<le> 2\<^sup>5\<^sup>3\<close>.
\<close>

theorem sample_route_to_minutes_endpoints:
  assumes "1 < length P" and "1 \<le> total_minutes" and "length P \<le> 2 ^ 53"
  shows "length (sample_route_to_minutes P total_minutes) = nat total_minutes + 1
       \<and> hd (sample_route_to_minutes P total_minutes) = hd P
       \<and> last (sample_route_to_minutes P total_minutes) = last P"
proof -
  let ?f = "\<lambda>m. P ! nat (point_index (length P) total_minutes m)"
  have eq: "sample_route_to_minutes P total_minutes = map ?f [0..total_minutes]"
    using assms(1) by (rule sample_route_to_minutes_map)
  have ne: "[0..total_minutes] \<noteq> []"
    using assms(2) by simp
  have lpos: "0 < length P"
    using assms(1) by linarith
  then have pne: "P \<noteq> []"
    by simp
  have len: "length (sample_route_to_minutes P total_minutes) = nat total_minutes + 1"
    using assms(2) by (simp add: eq)
  have "hd [0..total_minutes] = 0"
    using assms(2) by (simp add: upto_rec1)
  moreover have "point_index (length P) total_minutes 0 = 0"
    using lpos by (rule point_index_first)
  ultimately have first: "hd (sample_route_to_minutes P total_minutes) = hd P"
    using pne ne by (simp add: eq hd_map hd_conv_nth)
  have "last [0..total_minutes] = total_minutes"
    using assms(2) by (simp add: upto_rec2)
  moreover have "point_index (length P) total_minutes total_minutes = int (length P) - 1"
  proof (rule point_index_last [OF lpos])
    have "int (length P) \<le> int (2 ^ 53)"
      using assms(3) by (simp only: of_nat_le_iff)
    then show "int (length P) - 1 \<le> 2 ^ 53"
      by simp
    show "0 < total_minutes"
      using assms(2) by simp
  qed
  moreover have "nat (int (length P) - 1) = length P - 1"
    by linarith
  ultimately have "last (sample_route_to_minutes P total_minutes) = last P"
    using pne ne by (simp add: eq last_map last_conv_nth)
  with len first show ?thesis by simp
qed

theorem sample_route_to_minutes_endpoints_witness:
  "1 < length [10, 20, 30 :: int] \<and> (1 :: int) \<le> 5 \<and> length [10, 20, 30 :: int] \<le> 2 ^ 53
   \<and> length (sample_route_to_minutes [10, 20, 30 :: int] 5) = 6
   \<and> hd (sample_route_to_minutes [10, 20, 30 :: int] 5) = 10
   \<and> last (sample_route_to_minutes [10, 20, 30 :: int] 5) = 30"
  using sample_route_to_minutes_endpoints [of "[10, 20, 30 :: int]" 5] by simp

text \<open>
  C2. \<^verbatim>\<open>sample_route_to_minutes\<close> departs from the reference definition of the
  specification. The code computes the index as \<^verbatim>\<open>int(ratio * (len(route_points) - 1))\<close>
  in doubles, and the product with the rounded ratio can fall just below the integer that
  the exact product is. For 23 points and 22 minutes, minute 15 reads
  \<^verbatim>\<open>int((15 / 22) * 22)\<close>, which is 14, where the reference definition reads
  \<open>floor ((15 / 22) * 22) = 15\<close>. The two agree on an input of at most one point and for
  \<open>total_minutes \<le> 0\<close> (lemma \<open>sample_route_to_minutes_reference_boundary\<close>), and every
  output point of the code is a point of its input (lemma
  \<open>sample_route_to_minutes_subset\<close>).
\<close>

theorem sample_route_to_minutes_differs_from_reference:
  "sample_route_to_minutes straight_track 22 ! 15 = (14, 0)
   \<and> resample_reference straight_track 22 ! 15 = (15, 0)
   \<and> sample_route_to_minutes straight_track 22 \<noteq> resample_reference straight_track 22"
proof -
  have len: "length straight_track = 23"
    by (simp add: straight_track_def)
  have "sample_route_to_minutes straight_track 22 ! nat 15
          = straight_track ! nat (point_index (length straight_track) 22 15)"
    by (rule sample_route_to_minutes_nth) (simp_all add: len)
  then have a: "sample_route_to_minutes straight_track 22 ! 15 = (14, 0)"
    by (simp only: len point_index_23_22_15) (simp add: straight_track_def)
  have "resample_reference straight_track 22 ! nat 15
          = straight_track ! nat (reference_index (length straight_track) 22 15)"
    by (rule resample_reference_nth) (simp_all add: len)
  then have b: "resample_reference straight_track 22 ! 15 = (15, 0)"
    by (simp only: len reference_index_23_22_15) (simp add: straight_track_def)
  from a b have "sample_route_to_minutes straight_track 22 \<noteq> resample_reference straight_track 22"
    by auto
  with a b show ?thesis
    by (intro conjI)
qed

text \<open>
  C3. Resampling the output of \<^verbatim>\<open>sample_route_to_minutes\<close> to the same duration does not
  always reproduce it, although the reference definition is idempotent (lemma
  \<open>resample_reference_idempotent\<close>). For four points and 22 minutes the first pass returns
  23 points; minute 15 of the second pass reads the index \<^verbatim>\<open>int((15 / 22) * 22)\<close>,
  which is 14 in doubles, and returns \<open>(20, 0)\<close>, where the first pass has \<open>(30, 0)\<close>.
\<close>

theorem sample_route_to_minutes_not_idempotent:
  "sample_route_to_minutes (sample_route_to_minutes [(10, 0), (20, 0), (30, 0), (40, 0)] 22) 22 ! 15
     = (20 :: float64, 0 :: float64)
   \<and> sample_route_to_minutes [(10, 0), (20, 0), (30, 0), (40, 0)] 22 ! 15 = (30 :: float64, 0 :: float64)
   \<and> sample_route_to_minutes (sample_route_to_minutes [(10, 0), (20, 0), (30, 0), (40, 0)] 22) 22
        \<noteq> sample_route_to_minutes [(10, 0), (20, 0), (30, 0), (40 :: float64, 0 :: float64)] 22"
proof -
  let ?P = "[(10, 0), (20, 0), (30, 0), (40 :: float64, 0 :: float64)]"
  let ?Q = "sample_route_to_minutes ?P 22"
  have lenP: "length ?P = 4"
    by simp
  have lenQ: "length ?Q = 23"
    by (simp add: sample_route_to_minutes_length)
  have "?Q ! nat 14 = ?P ! nat (point_index (length ?P) 22 14)"
    by (rule sample_route_to_minutes_nth) simp_all
  then have q14: "?Q ! 14 = (20, 0)"
    by (simp only: lenP point_index_4_22) simp
  have "?Q ! nat 15 = ?P ! nat (point_index (length ?P) 22 15)"
    by (rule sample_route_to_minutes_nth) simp_all
  then have q15: "?Q ! 15 = (30, 0)"
    by (simp only: lenP point_index_4_22) simp
  have "sample_route_to_minutes ?Q 22 ! nat 15 = ?Q ! nat (point_index (length ?Q) 22 15)"
    by (rule sample_route_to_minutes_nth) (simp_all add: lenQ)
  then have "sample_route_to_minutes ?Q 22 ! 15 = ?Q ! 14"
    by (simp only: lenQ point_index_23_22_15) simp
  with q14 have r15: "sample_route_to_minutes ?Q 22 ! 15 = (20, 0)"
    by simp
  from r15 q15 have "sample_route_to_minutes ?Q 22 \<noteq> ?Q"
    by auto
  with r15 q15 show ?thesis
    by (intro conjI)
qed




text \<open>
  C5. On the fallback path the route points are not always the interpolator's output.
  \<^verbatim>\<open>generate_trajectory\<close> resamples whatever \<^verbatim>\<open>get_osrm_route\<close> returned, the
  interpolated polyline included, and the resampler truncates a rounded product to find
  its index. For the endpoints \<open>(0, 0)\<close> and \<open>(0, 0.2734375)\<close>, 30.4 km apart, the
  duration is 22 minutes and minute 15 reads the index \<^verbatim>\<open>int((15 / 22) * 22) = 14\<close>:
  the trajectory repeats the interpolated point of minute 14 and drops that of minute 15.
\<close>

theorem fallback_route_points_not_interpolated:
  "duration_minutes (projr (generate_trajectory_osrm_api (libm_answering (1251 / 524288))
       (two_metros 0 0 0 (35 / 128)) router_down ''A'' ''B'' None)) = 22
   \<and> route_points (projr (generate_trajectory_osrm_api (libm_answering (1251 / 524288))
       (two_metros 0 0 0 (35 / 128)) router_down ''A'' ''B'' None)) ! 15
     = interpolate_route 0 0 0 (35 / 128) 22 ! 14
   \<and> interpolate_route 0 0 0 (35 / 128) 22 ! 14 \<noteq> interpolate_route 0 0 0 (35 / 128) 22 ! 15
   \<and> route_points (projr (generate_trajectory_osrm_api (libm_answering (1251 / 524288))
       (two_metros 0 0 0 (35 / 128)) router_down ''A'' ''B'' None))
     \<noteq> interpolate_route 0 0 0 (35 / 128) 22"
proof -
  let ?Q = "interpolate_route 0 0 0 (35 / 128) 22"
  let ?G = "generate_trajectory_osrm_api (libm_answering (1251 / 524288))
              (two_metros 0 0 0 (35 / 128)) router_down ''A'' ''B'' None"
  have g: "route_points (projr ?G) = sample_route_to_minutes ?Q 22"
          "duration_minutes (projr ?G) = 22"
    by (simp_all add: generate_trajectory_osrm_api_fallback[OF find_two_metros router_down_reply]
          minutes_30km)
  have lenQ: "length ?Q = 23"
    by (simp add: length_interpolate_route)
  have "sample_route_to_minutes ?Q 22 ! nat 15 = ?Q ! nat (point_index (length ?Q) 22 15)"
    by (rule sample_route_to_minutes_nth) (simp_all add: lenQ)
  then have "sample_route_to_minutes ?Q 22 ! nat 15 = ?Q ! nat 14"
    by (simp only: lenQ point_index_23_22_15)
  then have s15: "route_points (projr ?G) ! 15 = ?Q ! 14"
    by (simp add: g(1))
  have q14: "?Q ! nat 14 = interpolated_point 0 0 0 (35 / 128) 22 14"
    by (rule interpolate_route_nth) simp_all
  have q15: "?Q ! nat 15 = interpolated_point 0 0 0 (35 / 128) 22 15"
    by (rule interpolate_route_nth) simp_all
  have d: "?Q ! 14 \<noteq> ?Q ! 15"
    using q14 q15 interpolated_14_15 by simp
  have ne: "route_points (projr ?G) \<noteq> ?Q"
  proof
    assume "route_points (projr ?G) = ?Q"
    with s15 have "?Q ! 15 = ?Q ! 14" by simp
    with d show False by simp
  qed
  from g(2) s15 d ne show ?thesis
    by (intro conjI)
qed

text \<open>
  C6. The last point of the interpolated polyline is not always \<open>B\<close>. For endpoints less
  than 1.34 km apart the duration \<^verbatim>\<open>int(distance / 80 * 60)\<close> is 0 minutes and the
  polyline is the single point \<open>A\<close>: here \<open>A = (40, -75)\<close> and
  \<open>B = (40, -74.9921875)\<close>, 665 m apart.
\<close>

theorem fallback_linear_route_single_point:
  "last (rd_route_points
           (fallback_linear_route (libm_answering (219 / 4194304)) 40 (- 75) 40 (- 9599 / 128)))
     \<noteq> (40, - 9599 / 128)"
proof -
  have "fl (- 75) \<noteq> - 9599 / 128"
    by code_simp
  then show ?thesis
    unfolding fallback_linear_route_fields minutes_660m interpolate_route_zero
    by simp
qed

text \<open>
  C6, as amended. On the fallback path between \<open>A\<close> and \<open>B\<close>, for a distance that is not
  negative and \<open>A\<close> given in doubles: \<open>duration_hours\<close> is the haversine distance divided
  by 80; the first point of the polyline is \<open>A\<close>; when the duration is 0 minutes the
  polyline is the single point \<open>A\<close>; otherwise its last point is
  \<^verbatim>\<open>A + (B - A) * 1.0\<close> computed in doubles, coordinate by coordinate, which is \<open>B\<close>
  whenever that sum is exact.
\<close>

theorem fallback_linear_route_endpoints:
  assumes "0 \<le> haversine_distance lm start_lat start_lon end_lat end_lon"
    and "fl start_lat = start_lat" and "fl start_lon = start_lon"
    and "minutes = fallback_minutes lm start_lat start_lon end_lat end_lon"
    and "rd = fallback_linear_route lm start_lat start_lon end_lat end_lon"
  shows "rd_duration_hours rd
           = fdiv (haversine_distance lm start_lat start_lon end_lat end_lon) 80
       \<and> hd (rd_route_points rd) = (start_lat, start_lon)
       \<and> (if minutes = 0 then rd_route_points rd = [(start_lat, start_lon)]
           else last (rd_route_points rd)
                  = (fadd start_lat (fmul (fsub end_lat start_lat) 1),
                     fadd start_lon (fmul (fsub end_lon start_lon) 1)))"
proof -
  have nonneg: "0 \<le> minutes"
    unfolding assms(4) using assms(1) by (rule fallback_minutes_nonneg)
  have pts: "rd_route_points rd = interpolate_route start_lat start_lon end_lat end_lon minutes"
    by (simp add: assms(4,5) fallback_linear_route_fields)
  have a: "rd_duration_hours rd
             = fdiv (haversine_distance lm start_lat start_lon end_lat end_lon) 80"
    by (simp add: assms(5) fallback_linear_route_fields)
  have b: "hd (rd_route_points rd) = (start_lat, start_lon)"
    unfolding pts using nonneg assms(2,3) by (rule hd_interpolate_route)
  have c: "minutes = 0 \<Longrightarrow> rd_route_points rd = [(start_lat, start_lon)]"
    using assms(2,3) by (simp add: pts interpolate_route_zero)
  have d: "minutes \<noteq> 0 \<Longrightarrow> last (rd_route_points rd)
                  = (fadd start_lat (fmul (fsub end_lat start_lat) 1),
                     fadd start_lon (fmul (fsub end_lon start_lon) 1))"
    unfolding pts using nonneg by (intro last_interpolate_route) simp
  from a b c d show ?thesis
    by simp
qed

theorem fallback_linear_route_endpoints_witness:
  "rd_duration_hours
     (fallback_linear_route (libm_answering (493 / 1048576)) 40 (- 75) 40 (- 9591 / 128))
     = fdiv (haversine_distance (libm_answering (493 / 1048576)) 40 (- 75) 40 (- 9591 / 128)) 80
   \<and> hd (rd_route_points
           (fallback_linear_route (libm_answering (493 / 1048576)) 40 (- 75) 40 (- 9591 / 128)))
     = (40, - 75)
   \<and> last (rd_route_points
           (fallback_linear_route (libm_answering (493 / 1048576)) 40 (- 75) 40 (- 9591 / 128)))
     = (40, - 9591 / 128)"
  using fallback_linear_route_endpoints
          [OF distance_6km_nonneg doubles_40_75 minutes_6km [symmetric] refl,
           unfolded round_trip_6km]
  by simp

text \<open>
  C7. \<^verbatim>\<open>calculate_per_minute_speeds\<close> returns one value for each pair of adjacent points:
  \<open>len(points) - 1\<close> values, the one for the points \<open>i\<close> and \<open>i + 1\<close> being their
  haversine distance (Earth radius 6371 km, as \<^verbatim>\<open>haversine_distance\<close> computes it) times
  60; none for an empty or a one-point trajectory.
\<close>

theorem calculate_per_minute_speeds_adjacent:
  "calculate_per_minute_speeds lm trajectory
     = map2 (speed_between lm) (route_points trajectory) (tl (route_points trajectory))
   \<and> length (calculate_per_minute_speeds lm trajectory) = length (route_points trajectory) - 1
   \<and> calculate_per_minute_speeds lm (trajectory\<lparr>route_points := []\<rparr>) = []
   \<and> calculate_per_minute_speeds lm (trajectory\<lparr>route_points := [p]\<rparr>) = []"
proof -
  have eq: "calculate_per_minute_speeds lm t = map2 (speed_between lm) (route_points t) (tl (route_points t))"
    for t :: "'a trajectory_scheme"
    by (simp add: calculate_per_minute_speeds_def py_range_def speeds_loop_map adjacent_map)
  show ?thesis
    by (simp add: eq)
qed

text \<open>
  C8. For a negative window the rolling mean is not defined: the window of the last index
  is empty, and the code divides by its length. One speed and the window \<open>-1\<close> raise
  \<open>ZeroDivisionError\<close>.
\<close>

theorem calculate_rolling_mean_speeds_negative_window:
  "calculate_rolling_mean_speeds [1] (- 1) = Inl ZeroDivisionError"
  by code_simp

text \<open>
  C8, as amended. For every window that is not negative (and for no speeds at all),
  \<^verbatim>\<open>calculate_rolling_mean_speeds\<close> returns the speeds unchanged when there are fewer
  than \<open>window\<close> of them; otherwise it returns as many values as speeds, the one at index
  \<open>i\<close> being the mean (sum divided by count, in doubles) of the speeds at the indices
  from \<open>max(0, i - window // 2)\<close> up to, not including,
  \<open>min(len(speeds), i + window // 2 + 1)\<close>.
\<close>

theorem calculate_rolling_mean_speeds_window:
  assumes "0 \<le> window \<or> speeds = []"
  shows "calculate_rolling_mean_speeds speeds window
           = Inr (if int (length speeds) < window then speeds
                  else map (window_mean speeds window) [0..<length speeds])"
proof (cases "speeds = []")
  case True
  then show ?thesis
    by (simp add: calculate_rolling_mean_speeds_def py_range_def)
next
  case False
  with assms have w: "0 \<le> window" by simp
  have "rolling_loop speeds window [0..int (length speeds) - 1] []
          = Inr ([] @ map (\<lambda>i. window_mean speeds window (nat i)) [0..int (length speeds) - 1])"
    by (rule rolling_loop_map[OF w]) simp
  also have "map (\<lambda>i. window_mean speeds window (nat i)) [0..int (length speeds) - 1]
               = map (window_mean speeds window) [0..<length speeds]"
    by (simp add: upto_as_upt comp_def)
  finally show ?thesis
    by (simp add: calculate_rolling_mean_speeds_def py_range_def)
qed

theorem calculate_rolling_mean_speeds_window_witness:
  "calculate_rolling_mean_speeds [60, 80, 100, 80, 60] 3
       = Inr [70, 80, 6098624495397547 / 70368744177664, 80, 70]"
proof -
  have "[0..<length [60, 80, 100, 80, 60 :: float64]] = [0, 1, 2, 3, 4]"
    by (simp add: upt_rec)
  then show ?thesis
    using calculate_rolling_mean_speeds_window [of 3 "[60, 80, 100, 80, 60]"]
    by (simp only: window_mean_example) simp
qed

text \<open>
  C9. \<^verbatim>\<open>reverse_geocode_state\<close> also returns strings that are neither a code of two
  letters nor \<^verbatim>\<open>'UNKNOWN'\<close>: a state that is not among the nine keys of the table is
  returned as the service spelt it.
\<close>

theorem reverse_geocode_state_unmapped:
  "reverse_geocode_state ascii_case
     (Body (JObj [(''address'', JObj [(''state'', JStr ''Ohio'')])])) = ''Ohio''
   \<and> length ''Ohio'' \<noteq> 2 \<and> ''Ohio'' \<noteq> ''UNKNOWN''"
  by code_simp

text \<open>
  C9, as amended. \<^verbatim>\<open>reverse_geocode_state\<close> never returns an empty string. It returns
  \<^verbatim>\<open>'UNKNOWN'\<close> when the request fails and when the answer is malformed: the body is not
  an object, the address is not an object, the state is a value that counts as true and is
  not a string, or there is no state and the country code is not a string. For an address
  whose state is a string that is not empty, it returns the code of the table when the
  state in lower case is one of its nine keys, and the state as the service spelt it
  otherwise. For an address without a state (absent, null or empty) the country code in
  upper case, empty when absent, takes the place of the state: the result is the code of
  the table when its lower case is a key, the country code in upper case otherwise, and
  \<^verbatim>\<open>'UNKNOWN'\<close> when that is empty. Every code of the table has two letters.
\<close>

theorem reverse_geocode_state_result:
  "reverse_geocode_state u RequestFailed = ''UNKNOWN''
   \<and> ((\<forall>kvs. data \<noteq> JObj kvs) \<longrightarrow> reverse_geocode_state u (Body data) = ''UNKNOWN'')
   \<and> (dict_get data ''address'' (JObj []) = Some address \<longrightarrow>
        ((\<forall>kvs. address \<noteq> JObj kvs) \<longrightarrow> reverse_geocode_state u (Body data) = ''UNKNOWN'')
      \<and> (dict_get address ''state'' JNull = Some st \<and> truthy st \<and> (\<forall>s. st \<noteq> JStr s) \<longrightarrow>
           reverse_geocode_state u (Body data) = ''UNKNOWN'')
      \<and> (dict_get address ''state'' JNull = Some (JStr s) \<and> s \<noteq> [] \<longrightarrow>
           reverse_geocode_state u (Body data)
             = (case map_of state_mapping (u_lower u s) of Some code \<Rightarrow> code | None \<Rightarrow> s))
      \<and> (dict_get address ''state'' JNull = Some st \<and> \<not> truthy st
          \<and> dict_get address ''country_code'' (JStr []) = Some cc \<longrightarrow>
           ((\<forall>c. cc \<noteq> JStr c) \<longrightarrow> reverse_geocode_state u (Body data) = ''UNKNOWN'')
         \<and> (cc = JStr c \<longrightarrow>
              reverse_geocode_state u (Body data)
                = (case map_of state_mapping (u_lower u (u_upper u c)) of Some code \<Rightarrow> code
                   | None \<Rightarrow> if u_upper u c \<noteq> [] then u_upper u c else ''UNKNOWN''))))
   \<and> reverse_geocode_state u response \<noteq> []
   \<and> (map_of state_mapping k = Some code \<longrightarrow> length code = 2)"
proof -
  have a: "reverse_geocode_state u RequestFailed = ''UNKNOWN''"
    by (simp add: reverse_geocode_state_def)
  have b: "(\<forall>kvs. data \<noteq> JObj kvs) \<longrightarrow> reverse_geocode_state u (Body data) = ''UNKNOWN''"
    by (simp add: reverse_geocode_state_def geocode_try_not_dict)
  have c: "reverse_geocode_state u (Body data) = ''UNKNOWN''"
    if "dict_get data ''address'' (JObj []) = Some address" "\<forall>kvs. address \<noteq> JObj kvs"
    using that by (simp add: reverse_geocode_state_def geocode_try_address_not_dict)
  have d: "reverse_geocode_state u (Body data) = ''UNKNOWN''"
    if "dict_get data ''address'' (JObj []) = Some address"
       "dict_get address ''state'' JNull = Some st" "truthy st" "\<forall>s. st \<noteq> JStr s"
    using that by (simp add: reverse_geocode_state_def geocode_try_state_not_str)
  have e: "reverse_geocode_state u (Body data)
             = (case map_of state_mapping (u_lower u s) of Some code \<Rightarrow> code | None \<Rightarrow> s)"
    if "dict_get data ''address'' (JObj []) = Some address"
       "dict_get address ''state'' JNull = Some (JStr s)" "s \<noteq> []"
    using that by (simp add: reverse_geocode_state_def geocode_try_state)
  have f: "reverse_geocode_state u (Body data) = ''UNKNOWN''"
    if "dict_get data ''address'' (JObj []) = Some address"
       "dict_get address ''state'' JNull = Some st" "\<not> truthy st"
       "dict_get address ''country_code'' (JStr []) = Some cc" "\<forall>c. cc \<noteq> JStr c"
    using that by (simp add: reverse_geocode_state_def geocode_try_country_not_str)
  have g: "reverse_geocode_state u (Body data)
             = (case map_of state_mapping (u_lower u (u_upper u c)) of Some code \<Rightarrow> code
                | None \<Rightarrow> if u_upper u c \<noteq> [] then u_upper u c else ''UNKNOWN'')"
    if "dict_get data ''address'' (JObj []) = Some address"
       "dict_get address ''state'' JNull = Some st" "\<not> truthy st"
       "dict_get address ''country_code'' (JStr []) = Some cc" "cc = JStr c"
    using that by (simp add: reverse_geocode_state_def geocode_try_country)
  show ?thesis
    using a b c d e f g reverse_geocode_state_nonempty[of u response]
      state_mapping_codes[of k code]
    by blast
qed

theorem reverse_geocode_state_result_witness:
  "reverse_geocode_state ascii_case (Body (JArr [])) = ''UNKNOWN''
   \<and> reverse_geocode_state ascii_case (Body (JObj [(''address'', JStr ''Texas'')])) = ''UNKNOWN''
   \<and> reverse_geocode_state ascii_case
        (Body (JObj [(''address'', JObj [(''state'', JNum 5)])])) = ''UNKNOWN''
   \<and> reverse_geocode_state ascii_case
        (Body (JObj [(''address'', JObj [(''state'', JStr ''Ohio''), (''state'', JStr ''Texas'')])]))
      = ''TX''
   \<and> reverse_geocode_state ascii_case
        (Body (JObj [(''address'', JObj [(''country_code'', JNull)])])) = ''UNKNOWN''
   \<and> reverse_geocode_state ascii_case
        (Body (JObj [(''address'', JObj [(''country_code'', JStr ''us'')])])) = ''US''
   \<and> length ''TX'' = 2"
proof -
  have a: "reverse_geocode_state ascii_case (Body (JArr [])) = ''UNKNOWN''"
    using reverse_geocode_state_result [where u = ascii_case and data = "JArr []"]
    by simp
  have b: "reverse_geocode_state ascii_case (Body (JObj [(''address'', JStr ''Texas'')]))
             = ''UNKNOWN''"
    using reverse_geocode_state_result
            [where u = ascii_case and data = "JObj [(''address'', JStr ''Texas'')]"
               and address = "JStr ''Texas''"]
    by simp
  have c: "reverse_geocode_state ascii_case
             (Body (JObj [(''address'', JObj [(''state'', JNum 5)])])) = ''UNKNOWN''"
    using reverse_geocode_state_result
            [where u = ascii_case and data = "JObj [(''address'', JObj [(''state'', JNum 5)])]"
               and address = "JObj [(''state'', JNum 5)]" and st = "JNum 5"]
    by simp
  have d: "reverse_geocode_state ascii_case
             (Body (JObj [(''address'',
                JObj [(''state'', JStr ''Ohio''), (''state'', JStr ''Texas'')])])) = ''TX''"
    using reverse_geocode_state_result
            [where u = ascii_case
               and data = "JObj [(''address'',
                             JObj [(''state'', JStr ''Ohio''), (''state'', JStr ''Texas'')])]"
               and address = "JObj [(''state'', JStr ''Ohio''), (''state'', JStr ''Texas'')]"
               and s = "''Texas''"]
    by (simp add: lower_texas)
  have e: "reverse_geocode_state ascii_case
             (Body (JObj [(''address'', JObj [(''country_code'', JNull)])])) = ''UNKNOWN''"
    using reverse_geocode_state_result
            [where u = ascii_case
               and data = "JObj [(''address'', JObj [(''country_code'', JNull)])]"
               and address = "JObj [(''country_code'', JNull)]" and st = JNull and cc = JNull]
    by simp
  have f: "reverse_geocode_state ascii_case
             (Body (JObj [(''address'', JObj [(''country_code'', JStr ''us'')])])) = ''US''"
    using reverse_geocode_state_result
            [where u = ascii_case
               and data = "JObj [(''address'', JObj [(''country_code'', JStr ''us'')])]"
               and address = "JObj [(''country_code'', JStr ''us'')]" and st = JNull
               and cc = "JStr ''us''" and c = "''us''"]
    by (simp add: upper_us lower_us)
  have g: "length ''TX'' = 2"
    using reverse_geocode_state_result [where k = "''texas''" and code = "''TX''"]
    by simp
  from a b c d e f g show ?thesis
    by (intro conjI)
qed

text \<open>
  C10. \<^verbatim>\<open>generate_trajectory(m, m)\<close> raises the error \<^verbatim>\<open>Metro region not found\<close>, in
  both files and whatever the registry holds: an entry named \<open>m\<close> takes the first branch
  of the scan, so the \<^verbatim>\<open>elif\<close> never assigns the end coordinates.
\<close>

theorem generate_trajectory_same_metro:
  "generate_trajectory self w m m avg_speed
     = Inl (ValueError (''Metro region not found: '' @ m @ '' or '' @ m))
   \<and> generate_trajectory_osrm_api lm registry w m m avg_speed
     = Inl (ValueError (''Metro region not found: '' @ m @ '' or '' @ m))"
  by (simp add: generate_trajectory_same generate_trajectory_osrm_api_same not_found_def)

end
